theory Spec2Isabelle
  imports Complex_Main
begin

section \<open>Python values and exceptions\<close>

text \<open>
  The command line interface of ampy (\<^verbatim>\<open>ampy/cli.py\<close>) is glue code: it calls the board
  (\<^verbatim>\<open>ampy.pyboard\<close>), the remote filesystem layer (\<^verbatim>\<open>ampy.files\<close>), the local filesystem
  and the console, and decides what to print and which exceptions to catch. The model is a
  shallow embedding of that glue: each command is a function on an explicit world, every
  outside call is answered by an environment, and a raised exception is the \<open>Inl\<close> branch of
  the result.

  A \<^verbatim>\<open>bytes\<close> value is a list of 8-bit characters. A \<^verbatim>\<open>str\<close> value is represented by its
  UTF-8 encoding, so a literal of the source is the same literal here.
\<close>

type_synonym bytes = string
type_synonym str = string

text \<open>
  An exception is identified by its class. \<open>bases\<close> lists the proper ancestors of a class:
  \<^verbatim>\<open>IOError\<close> is \<^verbatim>\<open>OSError\<close> in Python 3, \<^verbatim>\<open>serial.SerialException\<close> derives from
  \<^verbatim>\<open>IOError\<close>, and \<^verbatim>\<open>KeyboardInterrupt\<close> derives from \<^verbatim>\<open>BaseException\<close> only, so
  \<^verbatim>\<open>except Exception\<close> does not catch it. \<^verbatim>\<open>RuntimeError\<close> stands for the errors of the board
  that no handler of \<^verbatim>\<open>cli.py\<close> names.
\<close>

datatype exc_class =
    BaseException | Exception | KeyboardInterrupt
  | OSError | FileNotFoundError | SerialException
  | ValueError | UnicodeDecodeError
  | DirectoryExistsError | RuntimeError

type_synonym exc = exc_class

fun bases :: "exc_class \<Rightarrow> exc_class list" where
  "bases BaseException = []"
| "bases Exception = [BaseException]"
| "bases KeyboardInterrupt = [BaseException]"
| "bases OSError = [Exception, BaseException]"
| "bases FileNotFoundError = [OSError, Exception, BaseException]"
| "bases SerialException = [OSError, Exception, BaseException]"
| "bases ValueError = [Exception, BaseException]"
| "bases UnicodeDecodeError = [ValueError, Exception, BaseException]"
| "bases DirectoryExistsError = [Exception, BaseException]"
| "bases RuntimeError = [Exception, BaseException]"

definition isinstance :: "exc \<Rightarrow> exc_class \<Rightarrow> bool" where
  "isinstance e c = (e = c \<or> c \<in> set (bases e))"

abbreviation IOError :: exc_class where
  "IOError \<equiv> OSError"

subsection \<open>\<^verbatim>\<open>repr\<close> of a bytes value\<close>

definition hexdigits :: string where
  "hexdigits = ''0123456789abcdef''"

definition repr_byte :: "char \<Rightarrow> char \<Rightarrow> string" where
  "repr_byte quote c =
     (if c = quote \<or> c = CHR 0x5C then [CHR 0x5C, c]
      else if c = CHR 0x09 then [CHR 0x5C, CHR ''t'']
      else if c = CHR 0x0A then [CHR 0x5C, CHR ''n'']
      else if c = CHR 0x0D then [CHR 0x5C, CHR ''r'']
      else if (of_char c :: nat) < 0x20 \<or> 0x7F \<le> (of_char c :: nat)
        then [CHR 0x5C, CHR ''x'',
              hexdigits ! ((of_char c :: nat) div 16), hexdigits ! ((of_char c :: nat) mod 16)]
      else [c])"

definition repr_bytes :: "bytes \<Rightarrow> str" where
  "repr_bytes bs =
     (let quote = (if CHR 0x27 \<in> set bs \<and> CHR 0x22 \<notin> set bs then CHR 0x22 else CHR 0x27)
      in [CHR ''b'', quote] @ concat (map (repr_byte quote) bs) @ [quote])"

section \<open>The world outside \<^verbatim>\<open>cli.py\<close>\<close>

text \<open>
  Every call that leaves \<^verbatim>\<open>cli.py\<close> is a \<open>call\<close>. \<open>Files_mkdir\<close> carries \<open>None\<close> where the
  source leaves \<^verbatim>\<open>exists_okay\<close> at the default of \<^verbatim>\<open>files.py\<close>.
\<close>

datatype call =
    Pyboard str int real
  | Board_close
  | Enter_raw_repl
  | Exit_raw_repl
  | Exec str
  | Eval str
  | Files_get str
  | Files_mkdir str "bool option"
  | Files_ls str bool bool
  | Files_put str bytes
  | Files_rm str
  | Files_rmdir str bool
  | Files_run str bool
  | Open_read str
  | File_write str bytes
  | Exec_raw_no_follow bytes
  | Follow

text \<open>
  The trace records, in order, each outside call with the exception it raised (if any),
  each text written to standard output and to the error stream, and each traceback the
  interpreter prints for an exception that nothing caught.
\<close>

datatype event =
    Call call "exc option"
  | Stdout str
  | Stderr str
  | Traceback exc

type_synonym trace = "event list"

text \<open>The one function that \<^verbatim>\<open>cli\<close> registers with \<^verbatim>\<open>atexit\<close>.\<close>

datatype exitfunc = Close

record world =
  trace :: trace
  exitfuncs :: "exitfunc list"

text \<open>
  The environment answers the outside calls: it is the board, the modules \<^verbatim>\<open>ampy.pyboard\<close>,
  \<^verbatim>\<open>ampy.files\<close> and \<^verbatim>\<open>ampy.util\<close>, and the local operating system. Each answer may depend on
  everything that happened before (the trace). The result types are those of the
  interfaces: \<^verbatim>\<open>eval\<close> and \<^verbatim>\<open>get\<close> return bytes, \<^verbatim>\<open>run\<close> returns bytes or \<^verbatim>\<open>None\<close>, \<^verbatim>\<open>ls\<close>
  returns a list of lines.

  The last field is the part of click and of the interpreter that \<^verbatim>\<open>cli.py\<close> does not
  decide: what they write on the error stream, and the exit status they give, for an
  exception that leaves the callbacks.
\<close>

record env =
  windows :: bool
  windows_full_port_name :: "str \<Rightarrow> str"
  pyboard_init :: "trace \<Rightarrow> str \<Rightarrow> int \<Rightarrow> real \<Rightarrow> exc + unit"
  board_close :: "trace \<Rightarrow> exc + unit"
  enter_raw_repl :: "trace \<Rightarrow> exc + unit"
  exit_raw_repl :: "trace \<Rightarrow> exc + unit"
  exec :: "trace \<Rightarrow> str \<Rightarrow> exc + bytes"
  eval :: "trace \<Rightarrow> str \<Rightarrow> exc + bytes"
  files_get :: "trace \<Rightarrow> str \<Rightarrow> exc + bytes"
  files_mkdir :: "trace \<Rightarrow> str \<Rightarrow> bool option \<Rightarrow> exc + unit"
  files_ls :: "trace \<Rightarrow> str \<Rightarrow> bool \<Rightarrow> bool \<Rightarrow> exc + str list"
  files_put :: "trace \<Rightarrow> str \<Rightarrow> bytes \<Rightarrow> exc + unit"
  files_rm :: "trace \<Rightarrow> str \<Rightarrow> exc + unit"
  files_rmdir :: "trace \<Rightarrow> str \<Rightarrow> bool \<Rightarrow> exc + unit"
  files_run :: "trace \<Rightarrow> str \<Rightarrow> bool \<Rightarrow> exc + bytes option"
  os_path_basename :: "str \<Rightarrow> str"
  os_path_abspath :: "str \<Rightarrow> str"
  os_path_relpath :: "str \<Rightarrow> str \<Rightarrow> str"
  os_path_join :: "str \<Rightarrow> str \<Rightarrow> str"
  os_path_isdir :: "str \<Rightarrow> bool"
  os_walk :: "str \<Rightarrow> (str \<times> str list \<times> str list) list"
  open_read :: "trace \<Rightarrow> str \<Rightarrow> exc + bytes"
  file_write :: "trace \<Rightarrow> str \<Rightarrow> bytes \<Rightarrow> exc + unit"
  exec_raw_no_follow :: "trace \<Rightarrow> bytes \<Rightarrow> exc + unit"
  follow :: "trace \<Rightarrow> exc + bytes"
  uncaught :: "exc \<Rightarrow> event list \<times> int"

section \<open>Statements: sequencing, outside calls, output, \<^verbatim>\<open>try\<close>\<close>

type_synonym 'a io = "world \<Rightarrow> (exc + 'a) \<times> world"

definition return_io :: "'a \<Rightarrow> 'a io" where
  "return_io x w = (Inr x, w)"

definition bind_io :: "'a io \<Rightarrow> ('a \<Rightarrow> 'b io) \<Rightarrow> 'b io" where
  "bind_io m f w = (case m w of (Inl e, w') \<Rightarrow> (Inl e, w') | (Inr x, w') \<Rightarrow> f x w')"

definition raise_io :: "exc \<Rightarrow> 'a io" where
  "raise_io e w = (Inl e, w)"

definition raised :: "exc + 'a \<Rightarrow> exc option" where
  "raised r = (case r of Inl e \<Rightarrow> Some e | Inr _ \<Rightarrow> None)"

definition perform :: "call \<Rightarrow> (trace \<Rightarrow> exc + 'a) \<Rightarrow> 'a io" where
  "perform c answer w =
     (let r = answer (trace w) in (r, w\<lparr>trace := trace w @ [Call c (raised r)]\<rparr>))"

definition emit :: "event \<Rightarrow> unit io" where
  "emit ev w = (Inr (), w\<lparr>trace := trace w @ [ev]\<rparr>)"

text \<open>\<^verbatim>\<open>print(*args, end=e)\<close> joins its arguments with one space.\<close>

fun join_args :: "str list \<Rightarrow> str" where
  "join_args [] = []"
| "join_args [a] = a"
| "join_args (a # b # rest) = a @ '' '' @ join_args (b # rest)"

definition print_end :: "str list \<Rightarrow> str \<Rightarrow> unit io" where
  "print_end args e = emit (Stdout (join_args args @ e))"

definition print :: "str list \<Rightarrow> unit io" where
  "print args = print_end args ''\<newline>''"

text \<open>\<^verbatim>\<open>click.echo(message, err=True)\<close>: the message and a newline, on the error stream.\<close>

definition echo_err :: "str \<Rightarrow> unit io" where
  "echo_err message = emit (Stderr (message @ ''\<newline>''))"

text \<open>\<^verbatim>\<open>try: body except cls: handler\<close>.\<close>

definition try_except :: "'a io \<Rightarrow> exc_class \<Rightarrow> 'a io \<Rightarrow> 'a io" where
  "try_except body cls handler w =
     (case body w of
        (Inl e, w') \<Rightarrow> if isinstance e cls then handler w' else (Inl e, w')
      | (Inr x, w') \<Rightarrow> (Inr x, w'))"

section \<open>The commands of \<^verbatim>\<open>cli.py\<close>\<close>

subsection \<open>\<^verbatim>\<open>reset\<close>\<close>

datatype mode = BOOTLOADER | NORMAL | SOFT | SAFE_MODE

fun flag_value :: "mode \<Rightarrow> str" where
  "flag_value BOOTLOADER = ''BOOTLOADER''"
| "flag_value NORMAL = ''NORMAL''"
| "flag_value SOFT = ''SOFT''"
| "flag_value SAFE_MODE = ''SAFE_MODE''"

text \<open>\<^verbatim>\<open>repr\<close> of a flag value: the text between single quotes.\<close>

definition repr_mode :: "mode \<Rightarrow> str" where
  "repr_mode m = [CHR 0x27] @ flag_value m @ [CHR 0x27]"

text \<open>The program that \<^verbatim>\<open>reset\<close> defines on the board before it asks for the reset.\<close>

definition reset_program :: str where
  "reset_program =
     ''if 1:\<newline>'' @
     ''        def on_next_reset(x):\<newline>'' @
     ''            try:\<newline>'' @
     ''                import microcontroller\<newline>'' @
     ''            except:\<newline>'' @
     ''                if x == 'NORMAL': return '' @ [CHR 0x27, CHR 0x27] @ ''\<newline>'' @
     ''                return 'Reset mode only supported on CircuitPython'\<newline>'' @
     ''            try:\<newline>'' @
     ''                microcontroller.on_next_reset(getattr(microcontroller.RunMode, x))\<newline>'' @
     ''            except ValueError as e:\<newline>'' @
     ''                return str(e)\<newline>'' @
     ''            return '' @ [CHR 0x27, CHR 0x27] @ ''\<newline>'' @
     ''        def reset():\<newline>'' @
     ''            try:\<newline>'' @
     ''                import microcontroller\<newline>'' @
     ''            except:\<newline>'' @
     ''                import machine as microcontroller\<newline>'' @
     ''            microcontroller.reset()\<newline>'' @
     ''    ''"

text \<open>\<^verbatim>\<open>"on_next_reset({})".format(repr(mode))\<close>.\<close>

definition on_next_reset_call :: "mode \<Rightarrow> str" where
  "on_next_reset_call mode = ''on_next_reset('' @ repr_mode mode @ '')''"

definition reset :: "env \<Rightarrow> mode \<Rightarrow> unit io" where
  "reset env mode =
     bind_io (perform Enter_raw_repl (enter_raw_repl env)) (\<lambda>_.
       if flag_value mode = ''SOFT'' then
         perform Exit_raw_repl (exit_raw_repl env)
       else
         bind_io (perform (Exec reset_program) (\<lambda>t. exec env t reset_program)) (\<lambda>_.
         bind_io (perform (Eval (on_next_reset_call mode))
                    (\<lambda>t. eval env t (on_next_reset_call mode))) (\<lambda>r.
         bind_io (print [''here we are'', repr_bytes r]) (\<lambda>_.
           if r \<noteq> [] then
             echo_err r
           else
             try_except
               (bind_io (perform (Exec ''reset()'') (\<lambda>t. exec env t ''reset()''))
                  (\<lambda>_. return_io ()))
               SerialException
               (return_io ())))))"

subsection \<open>\<^verbatim>\<open>bytes.decode("utf-8")\<close>\<close>

text \<open>
  Decoding succeeds on well-formed UTF-8 only (no overlong forms, no surrogates, nothing
  above U+10FFFF) and raises \<^verbatim>\<open>UnicodeDecodeError\<close> otherwise. Since a \<^verbatim>\<open>str\<close> is
  represented by its UTF-8 encoding, the decoded text of well-formed bytes is the same list.
\<close>

definition cont :: "char \<Rightarrow> bool" where
  "cont c = (0x80 \<le> (of_char c :: nat) \<and> (of_char c :: nat) \<le> 0xBF)"

definition between :: "nat \<Rightarrow> char \<Rightarrow> nat \<Rightarrow> bool" where
  "between lo c hi = (lo \<le> (of_char c :: nat) \<and> (of_char c :: nat) \<le> hi)"

fun utf8_valid :: "bytes \<Rightarrow> bool" where
  "utf8_valid [] = True"
| "utf8_valid (b # bs) =
     (if between 0x00 b 0x7F then utf8_valid bs
      else if between 0xC2 b 0xDF then
        (case bs of c1 # r \<Rightarrow> cont c1 \<and> utf8_valid r | _ \<Rightarrow> False)
      else if between 0xE0 b 0xEF then
        (case bs of
           c1 # c2 # r \<Rightarrow>
             (if b = CHR 0xE0 then between 0xA0 c1 0xBF
              else if b = CHR 0xED then between 0x80 c1 0x9F
              else cont c1) \<and> cont c2 \<and> utf8_valid r
         | _ \<Rightarrow> False)
      else if between 0xF0 b 0xF4 then
        (case bs of
           c1 # c2 # c3 # r \<Rightarrow>
             (if b = CHR 0xF0 then between 0x90 c1 0xBF
              else if b = CHR 0xF4 then between 0x80 c1 0x8F
              else cont c1) \<and> cont c2 \<and> cont c3 \<and> utf8_valid r
         | _ \<Rightarrow> False)
      else False)"

definition decode_utf8 :: "bytes \<Rightarrow> str io" where
  "decode_utf8 bs = (if utf8_valid bs then return_io bs else raise_io UnicodeDecodeError)"

subsection \<open>\<^verbatim>\<open>posixpath.join\<close> and \<^verbatim>\<open>posixpath.normpath\<close>\<close>

definition posixpath_join :: "str \<Rightarrow> str \<Rightarrow> str" where
  "posixpath_join a b =
     (if take 1 b = ''/'' then b
      else if a = [] \<or> (a \<noteq> [] \<and> last a = CHR ''/'') then a @ b
      else a @ ''/'' @ b)"

text \<open>\<^verbatim>\<open>path.split('/')\<close>.\<close>

fun split_slash :: "str \<Rightarrow> str list" where
  "split_slash [] = [[]]"
| "split_slash (c # cs) =
     (if c = CHR ''/'' then [] # split_slash cs
      else (case split_slash cs of [] \<Rightarrow> [[c]] | x # xs \<Rightarrow> (c # x) # xs))"

text \<open>\<^verbatim>\<open>'/'.join(comps)\<close>.\<close>

fun join_slash :: "str list \<Rightarrow> str" where
  "join_slash [] = []"
| "join_slash [c] = c"
| "join_slash (c # d # rest) = c @ ''/'' @ join_slash (d # rest)"

definition norm_step :: "nat \<Rightarrow> str list \<Rightarrow> str \<Rightarrow> str list" where
  "norm_step initial_slashes new_comps part =
     (if part = [] \<or> part = ''.'' then new_comps
      else if part \<noteq> ''..'' \<or> (initial_slashes = 0 \<and> new_comps = [])
              \<or> (new_comps \<noteq> [] \<and> last new_comps = ''..'')
        then new_comps @ [part]
      else if new_comps \<noteq> [] then butlast new_comps
      else new_comps)"

definition posixpath_normpath :: "str \<Rightarrow> str" where
  "posixpath_normpath path =
     (if path = [] then ''.''
      else
        let initial_slashes =
              (if take 1 path = ''/'' then
                 (if take 2 path = ''//'' \<and> take 3 path \<noteq> ''///'' then 2 else 1)
               else (0::nat));
            comps = foldl (norm_step initial_slashes) [] (split_slash path);
            joined = join_slash comps;
            result = (if 0 < initial_slashes
                      then replicate initial_slashes (CHR ''/'') @ joined else joined)
        in if result = [] then ''.'' else result)"

subsection \<open>The group callback \<^verbatim>\<open>cli\<close> and its cleanup function\<close>

record options =
  port :: str
  baud :: int
  delay :: real

text \<open>The function \<^verbatim>\<open>close\<close> that \<^verbatim>\<open>cli\<close> defines and registers.\<close>

definition close :: "env \<Rightarrow> unit io" where
  "close env = try_except (perform Board_close (board_close env)) Exception (return_io ())"

definition atexit_register :: "exitfunc \<Rightarrow> unit io" where
  "atexit_register f w = (Inr (), w\<lparr>exitfuncs := exitfuncs w @ [f]\<rparr>)"

definition cli :: "env \<Rightarrow> options \<Rightarrow> unit io" where
  "cli env opts =
     (let port = (if windows env then windows_full_port_name env (port opts) else port opts)
      in bind_io (perform (Pyboard port (baud opts) (delay opts))
                    (\<lambda>t. pyboard_init env t port (baud opts) (delay opts)))
           (\<lambda>_. atexit_register Close))"

subsection \<open>\<^verbatim>\<open>get\<close>, \<^verbatim>\<open>mkdir\<close>, \<^verbatim>\<open>ls\<close>, \<^verbatim>\<open>rm\<close>, \<^verbatim>\<open>rmdir\<close>\<close>

text \<open>\<open>local_file\<close> is the name of the file that click has opened for writing, if one is given.\<close>

definition get :: "env \<Rightarrow> str \<Rightarrow> str option \<Rightarrow> unit io" where
  "get env remote_file local_file =
     bind_io (perform (Files_get remote_file) (\<lambda>t. files_get env t remote_file)) (\<lambda>contents.
       case local_file of
         None \<Rightarrow> bind_io (decode_utf8 contents) (\<lambda>text. print [text])
       | Some f \<Rightarrow> perform (File_write f contents) (\<lambda>t. file_write env t f contents))"

definition mkdir :: "env \<Rightarrow> str \<Rightarrow> bool \<Rightarrow> unit io" where
  "mkdir env directory exists_okay =
     perform (Files_mkdir directory (Some exists_okay))
       (\<lambda>t. files_mkdir env t directory (Some exists_okay))"





subsection \<open>\<^verbatim>\<open>put\<close>\<close>

text \<open>The inner loop over \<^verbatim>\<open>child_files\<close>.\<close>

fun put_files :: "env \<Rightarrow> str \<Rightarrow> str \<Rightarrow> str list \<Rightarrow> unit io" where
  "put_files env parent remote_parent [] = return_io ()"
| "put_files env parent remote_parent (filename # rest) =
     bind_io (perform (Open_read (os_path_join env parent filename))
                (\<lambda>t. open_read env t (os_path_join env parent filename))) (\<lambda>data.
     bind_io (perform (Files_put (posixpath_join remote_parent filename) data)
                (\<lambda>t. files_put env t (posixpath_join remote_parent filename) data)) (\<lambda>_.
     put_files env parent remote_parent rest))"

text \<open>The outer loop over the triples of \<^verbatim>\<open>os.walk(local)\<close>.\<close>

fun put_walk :: "env \<Rightarrow> str \<Rightarrow> str \<Rightarrow> (str \<times> str list \<times> str list) list \<Rightarrow> unit io" where
  "put_walk env local remote [] = return_io ()"
| "put_walk env local remote ((parent, child_dirs, child_files) # rest) =
     (let remote_parent =
            posixpath_normpath (posixpath_join remote (os_path_relpath env parent local))
      in bind_io
           (try_except
              (bind_io (perform (Files_mkdir remote_parent None)
                          (\<lambda>t. files_mkdir env t remote_parent None))
                 (\<lambda>_. put_files env parent remote_parent child_files))
              DirectoryExistsError
              (return_io ()))
           (\<lambda>_. put_walk env local remote rest))"

definition put :: "env \<Rightarrow> str \<Rightarrow> str option \<Rightarrow> unit io" where
  "put env local remote_arg =
     (let remote = (case remote_arg of
                      None \<Rightarrow> os_path_basename env (os_path_abspath env local)
                    | Some r \<Rightarrow> r)
      in if os_path_isdir env local then
           put_walk env local remote (os_walk env local)
         else
           bind_io (perform (Open_read local) (\<lambda>t. open_read env t local)) (\<lambda>data.
             perform (Files_put remote data) (\<lambda>t. files_put env t remote data)))"

subsection \<open>\<^verbatim>\<open>run\<close>\<close>

text \<open>
  \<^verbatim>\<open>run\<close> takes the method \<^verbatim>\<open>Files.run\<close> as a parameter: \<open>files_run_call\<close> is the method as
  an outside call that the environment answers.
\<close>

definition files_run_call :: "env \<Rightarrow> str \<Rightarrow> bool \<Rightarrow> bytes option io" where
  "files_run_call env filename wait_output =
     perform (Files_run filename wait_output) (\<lambda>t. files_run env t filename wait_output)"

definition run :: "(str \<Rightarrow> bool \<Rightarrow> bytes option io) \<Rightarrow> str \<Rightarrow> bool \<Rightarrow> unit io" where
  "run board_files_run local_file no_output =
     try_except
       (bind_io (board_files_run local_file (\<not> no_output)) (\<lambda>output.
          case output of
            None \<Rightarrow> return_io ()
          | Some out \<Rightarrow> bind_io (decode_utf8 out) (\<lambda>text. print_end [text] [])))
       IOError
       (echo_err (''Failed to find or read input file: '' @ local_file))"

section \<open>The process around a command\<close>

text \<open>
  The process from the point where click has parsed and accepted the command line: the
  group callback \<^verbatim>\<open>cli\<close> runs, then the callback of the command, with the arguments click
  passes to it. A command line that click refuses (a \<^verbatim>\<open>put\<close> whose local path does not
  exist, refused by \<^verbatim>\<open>click.Path(exists=True)\<close>) never reaches the callback of the command
  and is not a run of it. A normal return of the callbacks gives exit status 0 (no callback
  of \<^verbatim>\<open>cli.py\<close> sets another); for an exception that leaves them, the report on the error
  stream and the exit status are those of the environment (\<open>uncaught\<close>). When the interpreter
  exits, the functions registered with \<^verbatim>\<open>atexit\<close> run, last registered first; an exception
  that leaves one of them is printed and the others still run.
\<close>

fun run_exitfunc :: "env \<Rightarrow> exitfunc \<Rightarrow> unit io" where
  "run_exitfunc env Close = close env"

fun run_exitfuncs :: "env \<Rightarrow> exitfunc list \<Rightarrow> world \<Rightarrow> world" where
  "run_exitfuncs env [] w = w"
| "run_exitfuncs env (f # fs) w =
     (case run_exitfunc env f w of
        (Inl e, w') \<Rightarrow> run_exitfuncs env fs (w'\<lparr>trace := trace w' @ [Traceback e]\<rparr>)
      | (Inr _, w') \<Rightarrow> run_exitfuncs env fs w')"

definition start :: world where
  "start = \<lparr>trace = [], exitfuncs = []\<rparr>"

text \<open>The session: the group callback, then the command, up to the point where both are left.\<close>

definition session :: "env \<Rightarrow> options \<Rightarrow> unit io \<Rightarrow> (exc + unit) \<times> world" where
  "session env opts command = bind_io (cli env opts) (\<lambda>_. command) start"

definition exit_status :: "env \<Rightarrow> exc + unit \<Rightarrow> int" where
  "exit_status env r = (case r of Inl e \<Rightarrow> snd (uncaught env e) | Inr _ \<Rightarrow> 0)"

definition report :: "env \<Rightarrow> exc + unit \<Rightarrow> world \<Rightarrow> world" where
  "report env r w =
     (case r of Inl e \<Rightarrow> w\<lparr>trace := trace w @ fst (uncaught env e)\<rparr> | Inr _ \<Rightarrow> w)"

definition main :: "env \<Rightarrow> options \<Rightarrow> unit io \<Rightarrow> int \<times> world" where
  "main env opts command =
     (case session env opts command of
        (r, w) \<Rightarrow> (exit_status env r, run_exitfuncs env (rev (exitfuncs w)) (report env r w)))"

text \<open>What went to the streams, and which outside calls were made.\<close>

fun is_stdout :: "event \<Rightarrow> bool" where
  "is_stdout (Stdout _) = True"
| "is_stdout _ = False"

fun is_stderr :: "event \<Rightarrow> bool" where
  "is_stderr (Stderr _) = True"
| "is_stderr (Traceback _) = True"
| "is_stderr _ = False"

fun calls :: "trace \<Rightarrow> call list" where
  "calls [] = []"
| "calls (Call c _ # t) = c # calls t"
| "calls (_ # t) = calls t"

section \<open>Parts of \<^verbatim>\<open>ampy.pyboard\<close> and \<^verbatim>\<open>ampy.files\<close>, from the specification\<close>

text \<open>
  Modelled from the spec: the Raw-Mode Session State of \<^verbatim>\<open>ampy/pyboard.py\<close>, which is not
  among the sources. The state is \<open>Unknown\<close> at session start; \<^verbatim>\<open>enter_raw_repl\<close> drives it to
  \<open>Raw\<close>; \<^verbatim>\<open>exit_raw_repl\<close> sets it to \<open>Friendly\<close>; it is mutated by these two operations only.
  A call that raised leaves it as it was.
\<close>

datatype repl_state = Unknown | Friendly | Raw | RawPasteSupported

fun session_step :: "repl_state \<Rightarrow> event \<Rightarrow> repl_state" where
  "session_step s (Call Enter_raw_repl None) = Raw"
| "session_step s (Call Exit_raw_repl None) = Friendly"
| "session_step s _ = s"

definition session_state :: "trace \<Rightarrow> repl_state" where
  "session_state t = foldl session_step Unknown t"

text \<open>
  Modelled from the spec: the method \<^verbatim>\<open>run\<close> of \<^verbatim>\<open>ampy/files.py\<close>, which is not among the
  sources. It reads a local script and uploads its text as one submission over raw mode;
  if \<^verbatim>\<open>wait_for_output\<close> is false it returns immediately after the submission without
  reading stdout or stderr, and so captures no output.
\<close>

definition files_run_spec :: "env \<Rightarrow> str \<Rightarrow> bool \<Rightarrow> bytes option io" where
  "files_run_spec env local_path wait_for_output =
     bind_io (perform (Open_read local_path) (\<lambda>t. open_read env t local_path)) (\<lambda>script.
     bind_io (perform (Exec_raw_no_follow script) (\<lambda>t. exec_raw_no_follow env t script)) (\<lambda>_.
       if wait_for_output then
         bind_io (perform Follow (follow env)) (\<lambda>out. return_io (Some out))
       else
         return_io None))"

section \<open>Concrete environments\<close>

text \<open>\<^verbatim>\<open>posixpath.basename\<close> and \<^verbatim>\<open>posixpath.abspath\<close>, for a host whose \<^verbatim>\<open>os.path\<close> is \<^verbatim>\<open>posixpath\<close>.\<close>

definition posixpath_basename :: "str \<Rightarrow> str" where
  "posixpath_basename p = rev (takeWhile (\<lambda>c. c \<noteq> CHR ''/'') (rev p))"

definition posixpath_abspath :: "str \<Rightarrow> str \<Rightarrow> str" where
  "posixpath_abspath cwd path =
     posixpath_normpath (if take 1 path = ''/'' then path else posixpath_join cwd path)"

text \<open>
  Click and the interpreter, for the exception classes above, when no \<^verbatim>\<open>OSError\<close> carries
  the error number \<^verbatim>\<open>EPIPE\<close>: click turns a \<^verbatim>\<open>KeyboardInterrupt\<close> into an empty line and
  \<^verbatim>\<open>Aborted!\<close> on the error stream, with status 1; every other exception reaches the
  interpreter, which prints its traceback and exits with status 1.
\<close>

definition python_uncaught :: "exc \<Rightarrow> event list \<times> int" where
  "python_uncaught e =
     (if e = KeyboardInterrupt then ([Stderr ''\<newline>'', Stderr ''Aborted!\<newline>''], 1)
      else ([Traceback e], 1))"

text \<open>
  A board on which every operation succeeds with an empty result, on a POSIX host whose
  working directory is \<^verbatim>\<open>/home/user\<close> and whose files are all empty.
\<close>

definition quiet_env :: env where
  "quiet_env = \<lparr>
     windows = False,
     windows_full_port_name = (\<lambda>p. p),
     pyboard_init = (\<lambda>t p b d. Inr ()),
     board_close = (\<lambda>t. Inr ()),
     enter_raw_repl = (\<lambda>t. Inr ()),
     exit_raw_repl = (\<lambda>t. Inr ()),
     exec = (\<lambda>t code. Inr []),
     eval = (\<lambda>t code. Inr []),
     files_get = (\<lambda>t p. Inr []),
     files_mkdir = (\<lambda>t p ok. Inr ()),
     files_ls = (\<lambda>t p l r. Inr []),
     files_put = (\<lambda>t p d. Inr ()),
     files_rm = (\<lambda>t p. Inr ()),
     files_rmdir = (\<lambda>t p ok. Inr ()),
     files_run = (\<lambda>t p wait. Inr None),
     os_path_basename = posixpath_basename,
     os_path_abspath = posixpath_abspath ''/home/user'',
     os_path_relpath = (\<lambda>p start. ''.''),
     os_path_join = posixpath_join,
     os_path_isdir = (\<lambda>p. False),
     os_walk = (\<lambda>p. []),
     open_read = (\<lambda>t p. Inr []),
     file_write = (\<lambda>t p d. Inr ()),
     exec_raw_no_follow = (\<lambda>t code. Inr ()),
     follow = (\<lambda>t. Inr []),
     uncaught = python_uncaught\<rparr>"

definition tty :: options where
  "tty = \<lparr>port = ''/dev/ttyUSB0'', baud = 115200, delay = 0\<rparr>"

text \<open>The board drops the serial connection when it is asked to reset.\<close>

definition resetting_env :: env where
  "resetting_env =
     quiet_env\<lparr>exec := (\<lambda>t code. if code = ''reset()'' then Inl SerialException else Inr [])\<rparr>"

text \<open>A board without the module \<^verbatim>\<open>microcontroller\<close>: only the mode \<^verbatim>\<open>NORMAL\<close> is accepted.\<close>

definition refusing_env :: env where
  "refusing_env =
     quiet_env\<lparr>eval := (\<lambda>t code. Inr ''Reset mode only supported on CircuitPython'')\<rparr>"


text \<open>The transport is already closed when the cleanup runs.\<close>

definition closed_env :: env where
  "closed_env = quiet_env\<lparr>board_close := (\<lambda>t. Inl SerialException)\<rparr>"

text \<open>The operator presses Ctrl-C while the cleanup closes the transport.\<close>

definition interrupted_env :: env where
  "interrupted_env = quiet_env\<lparr>board_close := (\<lambda>t. Inl KeyboardInterrupt)\<rparr>"


text \<open>The board holds a file with the text \<^verbatim>\<open>hi\<close>.\<close>

definition hi_env :: env where
  "hi_env = quiet_env\<lparr>files_get := (\<lambda>t p. Inr ''hi'')\<rparr>"

text \<open>
  A local folder \<^verbatim>\<open>lib\<close> with the file \<^verbatim>\<open>a.py\<close> and the folder \<^verbatim>\<open>sub\<close>, which holds \<^verbatim>\<open>b.py\<close>;
  the board already has the directory \<^verbatim>\<open>lib\<close>, but not \<^verbatim>\<open>lib/sub\<close>.
\<close>

definition lib_env :: env where
  "lib_env =
     quiet_env\<lparr>
       os_path_isdir := (\<lambda>p. p = ''lib''),
       os_walk := (\<lambda>p. [(''lib'', [''sub''], [''a.py'']), (''lib/sub'', [], [''b.py''])]),
       os_path_relpath := (\<lambda>p start. if p = ''lib/sub'' then ''sub'' else ''.''),
       files_mkdir := (\<lambda>t p ok. if p = ''lib'' then Inl DirectoryExistsError else Inr ())\<rparr>"


section \<open>Properties\<close>

lemmas io_defs = bind_io_def perform_def emit_def print_def print_end_def echo_err_def
  try_except_def return_io_def raise_io_def raised_def

lemma reset_program_neq [simp]: "reset_program \<noteq> ''reset()''"
  by (simp add: reset_program_def)

lemma flag_value_soft [simp]: "(flag_value mode = ''SOFT'') = (mode = SOFT)"
  by (cases mode) simp_all

text \<open>
  Claim C3. Whenever the last thing \<^verbatim>\<open>reset\<close> did was to submit \<^verbatim>\<open>reset()\<close>, and that
  submission raised a serial transport exception (the board disconnected), the command
  returns normally: the exception is swallowed, and nothing is written to the error stream.
\<close>

theorem reset_disconnect_expected:
  assumes "reset env mode w = (res, w')"
    and "last (trace w') = Call (Exec ''reset()'') (Some e)"
    and "isinstance e SerialException"
  shows "res = Inr () \<and> filter is_stderr (trace w') = filter is_stderr (trace w)"
  using assms
  by (auto simp: reset_def io_defs Let_def split: if_splits sum.splits prod.splits)

theorem reset_disconnect_expected_witness:
  "reset resetting_env NORMAL start =
     (Inr (), \<lparr>trace = [Call Enter_raw_repl None, Call (Exec reset_program) None,
                        Call (Eval ''on_next_reset('NORMAL')'') None,
                        Stdout (''here we are b'' @ [CHR 0x27, CHR 0x27] @ ''\<newline>''),
                        Call (Exec ''reset()'') (Some SerialException)],
              exitfuncs = []\<rparr>)
   \<and> isinstance SerialException SerialException"
  using reset_disconnect_expected [of resetting_env NORMAL start "Inr ()" _ SerialException]
  by (simp add: reset_def io_defs resetting_env_def quiet_env_def start_def isinstance_def
      on_next_reset_call_def repr_mode_def repr_bytes_def Let_def)


text \<open>
  Claim C9. In a mode other than the soft one, once the board has entered raw mode, accepted
  the program and replied \<open>r\<close> to \<^verbatim>\<open>on_next_reset\<close>, the command prints the line
  \<^verbatim>\<open>here we are\<close>, a space and \<^verbatim>\<open>repr(r)\<close> to standard output, whatever \<open>r\<close> is, and only
  then decides: for a non-empty reply it reports it on the error stream, for an empty one it
  submits \<^verbatim>\<open>reset()\<close>.
\<close>

theorem reset_prints_reply:
  assumes "mode \<noteq> SOFT"
    and "enter_raw_repl env (trace w) = Inr ()"
    and "exec env (trace w @ [Call Enter_raw_repl None]) reset_program = Inr out"
    and "eval env (trace w @ [Call Enter_raw_repl None, Call (Exec reset_program) None])
           (on_next_reset_call mode) = Inr r"
  shows "\<exists>ev. trace (snd (reset env mode w)) =
           trace w @ [Call Enter_raw_repl None, Call (Exec reset_program) None,
                      Call (Eval (on_next_reset_call mode)) None,
                      Stdout (''here we are '' @ repr_bytes r @ ''\<newline>'')] @ [ev]
         \<and> (if r \<noteq> [] then ev = Stderr (r @ ''\<newline>'')
            else (\<exists>x. ev = Call (Exec ''reset()'') x))"
  using assms
  by (auto simp: reset_def io_defs Let_def split: sum.splits)

theorem reset_prints_reply_witness:
  "NORMAL \<noteq> SOFT \<and>
   trace (snd (reset refusing_env NORMAL start)) =
     [Call Enter_raw_repl None, Call (Exec reset_program) None,
      Call (Eval (on_next_reset_call NORMAL)) None,
      Stdout (''here we are '' @ repr_bytes ''Reset mode only supported on CircuitPython''
                @ ''\<newline>''),
      Stderr ''Reset mode only supported on CircuitPython\<newline>'']"
  using reset_prints_reply [of NORMAL refusing_env start "[]"
      "''Reset mode only supported on CircuitPython''"]
  by (simp add: refusing_env_def quiet_env_def start_def)

text \<open>
  Claim C4 as stated fails: a hard reset on a board that disconnects ends normally, never
  calls \<^verbatim>\<open>exit_raw_repl\<close>, and leaves the session state \<open>Raw\<close>.
\<close>

theorem reset_leaves_raw_counterexample:
  "fst (reset resetting_env NORMAL start) = Inr ()
   \<and> Exit_raw_repl \<notin> set (calls (trace (snd (reset resetting_env NORMAL start))))
   \<and> session_state (trace (snd (reset resetting_env NORMAL start))) = Raw"
  by (simp add: reset_def io_defs resetting_env_def quiet_env_def start_def isinstance_def
      on_next_reset_call_def repr_mode_def repr_bytes_def Let_def session_state_def)

text \<open>
  Claim C4, amended. In the soft mode, when \<^verbatim>\<open>enter_raw_repl\<close> and \<^verbatim>\<open>exit_raw_repl\<close> return, the
  command calls \<^verbatim>\<open>exit_raw_repl\<close> before it ends and the session state is \<open>Friendly\<close>. In
  the other modes, on the path that ends with the submission of \<^verbatim>\<open>reset()\<close>, the command
  does not call \<^verbatim>\<open>exit_raw_repl\<close> and the session state is \<open>Raw\<close> when it ends.
\<close>

theorem reset_session_state:
  "(mode = SOFT \<and> enter_raw_repl env (trace w) = Inr ()
      \<and> exit_raw_repl env (trace w @ [Call Enter_raw_repl None]) = Inr ()
    \<longrightarrow> reset env mode w =
          (Inr (), w\<lparr>trace := trace w @ [Call Enter_raw_repl None, Call Exit_raw_repl None]\<rparr>)
        \<and> session_state (trace (snd (reset env mode w))) = Friendly)
   \<and> (mode \<noteq> SOFT \<and> last (trace (snd (reset env mode w))) = Call (Exec ''reset()'') x
    \<longrightarrow> Exit_raw_repl \<notin> set (calls (drop (length (trace w)) (trace (snd (reset env mode w)))))
        \<and> session_state (trace (snd (reset env mode w))) = Raw)"
  by (auto simp: reset_def io_defs Let_def session_state_def split: sum.splits if_splits)

theorem reset_session_state_witness:
  "session_state (trace (snd (reset quiet_env SOFT start))) = Friendly
   \<and> session_state (trace (snd (reset resetting_env SAFE_MODE start))) = Raw"
  using reset_session_state [of SOFT quiet_env start None]
    reset_session_state [of SAFE_MODE resetting_env start "Some SerialException"]
  by (simp add: reset_def io_defs resetting_env_def quiet_env_def start_def isinstance_def
      on_next_reset_call_def repr_mode_def repr_bytes_def Let_def)

subsection \<open>The cleanup function and the end of the process\<close>

lemma cli_result:
  "cli env opts start = (Inr (), w1) \<Longrightarrow>
     exitfuncs w1 = [Close] \<and> calls (trace w1) = [Pyboard (if windows env then windows_full_port_name env (port opts) else port opts) (baud opts) (delay opts)]"
  by (auto simp: cli_def io_defs Let_def start_def atexit_register_def split: sum.splits)

lemma run_exitfuncs_close:
  "run_exitfuncs env [Close] w =
     w\<lparr>trace := trace w @ Call Board_close (raised (board_close env (trace w)))
          # (case board_close env (trace w) of
               Inl e \<Rightarrow> if isinstance e Exception then [] else [Traceback e]
             | Inr _ \<Rightarrow> [])\<rparr>"
  by (auto simp: close_def io_defs Let_def split: sum.splits)

text \<open>
  Claim C6 as stated fails: the cleanup function does not swallow every exception. When
  \<^verbatim>\<open>board.close()\<close> is interrupted by a \<^verbatim>\<open>KeyboardInterrupt\<close>, which is not an \<^verbatim>\<open>Exception\<close>,
  the cleanup function raises it.
\<close>

theorem close_raises_counterexample:
  "close interrupted_env start =
     (Inl KeyboardInterrupt,
      \<lparr>trace = [Call Board_close (Some KeyboardInterrupt)], exitfuncs = []\<rparr>)"
  by (simp add: close_def io_defs interrupted_env_def quiet_env_def start_def isinstance_def
      Let_def)

text \<open>
  Claim C6, amended. The cleanup function makes the one call \<^verbatim>\<open>board.close()\<close>. It returns
  normally when the call returns and when the call raises an instance of \<^verbatim>\<open>Exception\<close>,
  such as the error of a transport that is disconnected or already closed; an exception
  that is not an instance of \<^verbatim>\<open>Exception\<close> leaves the cleanup function.
\<close>

theorem close_swallows_exceptions:
  "close env w =
     ((case board_close env (trace w) of
         Inl e \<Rightarrow> if isinstance e Exception then Inr () else Inl e
       | Inr _ \<Rightarrow> Inr ()),
      w\<lparr>trace := trace w @ [Call Board_close (raised (board_close env (trace w)))]\<rparr>)"
  by (auto simp: close_def io_defs Let_def split: sum.splits)

theorem close_swallows_exceptions_witness:
  "close closed_env start =
     (Inr (), \<lparr>trace = [Call Board_close (Some SerialException)], exitfuncs = []\<rparr>)"
  using close_swallows_exceptions [of closed_env start]
  by (simp add: closed_env_def quiet_env_def start_def isinstance_def raised_def)

text \<open>
  Claim C2 as stated fails: when the command \<^verbatim>\<open>mkdir\<close> has ended, the transport is still
  open; no \<^verbatim>\<open>board.close()\<close> has been made at the exit of any scope of the command. The
  cleanup function is only registered, with \<^verbatim>\<open>atexit.register\<close>.
\<close>

theorem session_scope_open_counterexample:
  "session quiet_env tty (mkdir quiet_env ''/code'' False) =
     (Inr (), \<lparr>trace = [Call (Pyboard ''/dev/ttyUSB0'' 115200 0) None,
                        Call (Files_mkdir ''/code'' (Some False)) None],
              exitfuncs = [Close]\<rparr>)"
  by (simp add: session_def cli_def mkdir_def io_defs quiet_env_def tty_def start_def
      atexit_register_def Let_def)

text \<open>
  Claim C2, amended. The transport is closed by a process-exit hook: once the group
  callback has opened the board, it registers \<^verbatim>\<open>close\<close> with \<^verbatim>\<open>atexit\<close>, and for a command
  that registers nothing itself the process calls \<^verbatim>\<open>board.close()\<close> exactly once, at its
  exit, after the command has ended (normally or with an exception, which is reported
  first); an exception of \<^verbatim>\<open>board.close()\<close> is swallowed when it is an \<^verbatim>\<open>Exception\<close>.
\<close>

theorem close_at_process_exit:
  assumes "cli env opts start = (Inr (), w1)"
    and "command w1 = (r, w2)"
    and "exitfuncs w2 = exitfuncs w1"
  shows "main env opts command =
           (exit_status env r,
            (report env r w2)\<lparr>trace := trace (report env r w2)
               @ Call Board_close (raised (board_close env (trace (report env r w2))))
               # (case board_close env (trace (report env r w2)) of
                    Inl e \<Rightarrow> if isinstance e Exception then [] else [Traceback e]
                  | Inr _ \<Rightarrow> [])\<rparr>)"
proof -
  have ef: "exitfuncs w1 = [Close]" using cli_result [OF assms(1)] by simp
  have s: "session env opts command = (r, w2)"
    using assms(1,2) by (simp add: session_def bind_io_def)
  have m: "main env opts command =
             (exit_status env r, run_exitfuncs env [Close] (report env r w2))"
    unfolding main_def s using ef assms(3) by simp
  show ?thesis by (simp only: m run_exitfuncs_close)
qed

theorem close_at_process_exit_witness:
  "main quiet_env tty (mkdir quiet_env ''/code'' False) =
     (0, \<lparr>trace = [Call (Pyboard ''/dev/ttyUSB0'' 115200 0) None,
                   Call (Files_mkdir ''/code'' (Some False)) None,
                   Call Board_close None],
         exitfuncs = [Close]\<rparr>)"
  using close_at_process_exit [of quiet_env tty
      "\<lparr>trace = [Call (Pyboard ''/dev/ttyUSB0'' 115200 0) None], exitfuncs = [Close]\<rparr>"
      "mkdir quiet_env ''/code'' False" "Inr ()"
      "\<lparr>trace = [Call (Pyboard ''/dev/ttyUSB0'' 115200 0) None,
                 Call (Files_mkdir ''/code'' (Some False)) None], exitfuncs = [Close]\<rparr>"]
  by (simp add: cli_def mkdir_def io_defs quiet_env_def tty_def start_def
      atexit_register_def Let_def exit_status_def report_def)

subsection \<open>\<^verbatim>\<open>get\<close>\<close>

text \<open>
  Claim C7. For every \<^verbatim>\<open>get\<close> that succeeds, the contents were retrieved from the board, and:
  with no local file the contents are well-formed UTF-8 and the command prints their
  decoded text (and nothing else) to standard output; with a local file the command writes
  the raw retrieved bytes to that file and prints nothing.
\<close>

theorem get_prints_or_writes:
  assumes "get env remote_file local_file w = (Inr (), w')"
  shows "\<exists>contents. files_get env (trace w) remote_file = Inr contents \<and>
           (case local_file of
              None \<Rightarrow> utf8_valid contents \<and>
                trace w' = trace w @ [Call (Files_get remote_file) None,
                                      Stdout (contents @ ''\<newline>'')]
            | Some f \<Rightarrow>
                trace w' = trace w @ [Call (Files_get remote_file) None,
                                      Call (File_write f contents) None])"
  using assms
  by (auto simp: get_def decode_utf8_def io_defs Let_def join_args.simps
      split: sum.splits option.splits if_splits prod.splits)

theorem get_prints_or_writes_witness:
  "trace (snd (get hi_env ''boot.py'' None start)) =
     [Call (Files_get ''boot.py'') None, Stdout ''hi\<newline>'']
   \<and> trace (snd (get hi_env ''boot.py'' (Some ''out.py'') start)) =
     [Call (Files_get ''boot.py'') None, Call (File_write ''out.py'' ''hi'') None]"
  using get_prints_or_writes [where env = hi_env and remote_file = "''boot.py''"
      and local_file = None and w = start and w' = "snd (get hi_env ''boot.py'' None start)"]
    get_prints_or_writes [where env = hi_env and remote_file = "''boot.py''"
      and local_file = "Some ''out.py''" and w = start
      and w' = "snd (get hi_env ''boot.py'' (Some ''out.py'') start)"]
  by (simp add: get_def decode_utf8_def io_defs Let_def hi_env_def quiet_env_def start_def
      between_def cont_def)

subsection \<open>\<^verbatim>\<open>put\<close>\<close>


lemma example_paths:
  "posixpath_basename (posixpath_abspath ''/home/user'' ''./foo/main.py'') = ''main.py''"
  "posixpath_basename (posixpath_abspath ''/home/user'' ''lib'') = ''lib''"
  "posixpath_normpath (posixpath_join ''lib'' ''.'') = ''lib''"
  "posixpath_normpath (posixpath_join ''lib'' ''sub'') = ''lib/sub''"
  "posixpath_join ''lib/sub'' ''b.py'' = ''lib/sub/b.py''"
  by code_simp+














text \<open>
  Claim C8. In a directory \<^verbatim>\<open>put\<close>, when the creation of the remote parent directory raises
  \<^verbatim>\<open>DirectoryExistsError\<close>, nothing more is done for that directory (none of its files is
  read or uploaded; the only event is the refused \<^verbatim>\<open>mkdir\<close>), the exception is swallowed, and
  the command goes on with the remaining directories of the walk.
\<close>

theorem put_existing_directory_skipped:
  assumes "files_mkdir env (trace w)
             (posixpath_normpath (posixpath_join remote (os_path_relpath env parent local)))
             None = Inl e"
    and "isinstance e DirectoryExistsError"
  shows "put_walk env local remote ((parent, child_dirs, child_files) # rest) w =
           put_walk env local remote rest
             (w\<lparr>trace := trace w @
                [Call (Files_mkdir
                         (posixpath_normpath
                            (posixpath_join remote (os_path_relpath env parent local)))
                         None) (Some e)]\<rparr>)"
  using assms by (simp add: io_defs Let_def)

theorem put_existing_directory_skipped_witness:
  "put lib_env ''lib'' None start =
     (Inr (), \<lparr>trace = [Call (Files_mkdir ''lib'' None) (Some DirectoryExistsError),
                        Call (Files_mkdir ''lib/sub'' None) None,
                        Call (Open_read ''lib/sub/b.py'') None,
                        Call (Files_put ''lib/sub/b.py'' []) None],
              exitfuncs = []\<rparr>)"
  using put_existing_directory_skipped [where env = lib_env and w = start
      and remote = "''lib''" and parent = "''lib''" and local = "''lib''"
      and e = DirectoryExistsError and child_dirs = "[''sub'']" and child_files = "[''a.py'']"
      and rest = "[(''lib/sub'', [], [''b.py''])]"]
  by (simp add: put_def lib_env_def quiet_env_def start_def example_paths isinstance_def
      io_defs Let_def)

subsection \<open>Errors and the exit status\<close>






subsection \<open>\<^verbatim>\<open>run --no-output\<close>\<close>

text \<open>
  Claim C5. With \<^verbatim>\<open>--no-output\<close> the command calls \<^verbatim>\<open>board_files.run\<close> with the file name and
  \<^verbatim>\<open>False\<close> for \<^verbatim>\<open>wait_for_output\<close>, and that call comes first; with the method \<^verbatim>\<open>run\<close> of the
  specification, the command prints nothing to standard output and never reads the
  script's output (no \<^verbatim>\<open>follow\<close>).
\<close>

theorem run_no_output:
  "(\<exists>x t. trace (snd (run (files_run_call env) local_file True w)) =
            trace w @ Call (Files_run local_file False) x # t)
   \<and> filter is_stdout (trace (snd (run (files_run_spec env) local_file True w))) =
       filter is_stdout (trace w)
   \<and> Follow \<notin> set (calls (drop (length (trace w))
                               (trace (snd (run (files_run_spec env) local_file True w)))))"
  by (auto simp: run_def files_run_call_def files_run_spec_def decode_utf8_def isinstance_def
      io_defs Let_def split: sum.splits option.splits if_splits prod.splits)

theorem run_no_output_witness:
  "trace (snd (run (files_run_spec quiet_env) ''loop.py'' True start)) =
     [Call (Open_read ''loop.py'') None, Call (Exec_raw_no_follow []) None]"
  using run_no_output [where env = quiet_env and local_file = "''loop.py''" and w = start]
  by (simp add: run_def files_run_spec_def io_defs quiet_env_def start_def Let_def)

end
